theory Spec2Isabelle
  imports Complex_Main "HOL-Library.Sublist"
begin

section \<open>JavaScript numbers\<close>

text \<open>
  The analysis code of \<^verbatim>\<open>api/bot.js\<close> computes on JavaScript numbers. A finite number is
  modelled by an exact real (rounding and the sign of zero are not modelled);
  the three non-finite values are kept, because the code divides by values that can be
  zero and compares and tests the results: a division by zero gives an infinity or NaN,
  every comparison with NaN is false, and \<^verbatim>\<open>!x\<close> holds of \<^verbatim>\<open>null\<close>, of 0 and of NaN.
  The operations \<open>js_add\<close> to \<open>js_div\<close> below are exact on finite operands; their
  variants \<open>ov_add\<close>, \<open>ov_sub\<close> and \<open>ov_div\<close> also overflow, and the momentum oscillator
  is written with them. The moving averages, the bands and the pattern test are written
  with the exact operations.
\<close>

datatype jsnum = Fin real | PInf | NInf | NaN

fun js_neg :: "jsnum \<Rightarrow> jsnum" where
  "js_neg (Fin a) = Fin (- a)"
| "js_neg PInf = NInf"
| "js_neg NInf = PInf"
| "js_neg NaN = NaN"

fun js_add :: "jsnum \<Rightarrow> jsnum \<Rightarrow> jsnum" where
  "js_add (Fin a) (Fin b) = Fin (a + b)"
| "js_add NaN _ = NaN"
| "js_add _ NaN = NaN"
| "js_add PInf NInf = NaN"
| "js_add NInf PInf = NaN"
| "js_add PInf _ = PInf"
| "js_add NInf _ = NInf"
| "js_add _ PInf = PInf"
| "js_add _ NInf = NInf"

definition js_sub :: "jsnum \<Rightarrow> jsnum \<Rightarrow> jsnum" where
  "js_sub x y = js_add x (js_neg y)"

fun js_mul :: "jsnum \<Rightarrow> jsnum \<Rightarrow> jsnum" where
  "js_mul (Fin a) (Fin b) = Fin (a * b)"
| "js_mul NaN _ = NaN"
| "js_mul _ NaN = NaN"
| "js_mul (Fin a) PInf = (if a = 0 then NaN else if 0 < a then PInf else NInf)"
| "js_mul (Fin a) NInf = (if a = 0 then NaN else if 0 < a then NInf else PInf)"
| "js_mul PInf (Fin b) = (if b = 0 then NaN else if 0 < b then PInf else NInf)"
| "js_mul NInf (Fin b) = (if b = 0 then NaN else if 0 < b then NInf else PInf)"
| "js_mul PInf PInf = PInf"
| "js_mul PInf NInf = NInf"
| "js_mul NInf PInf = NInf"
| "js_mul NInf NInf = PInf"

text \<open>Division: a zero divisor is taken as \<^verbatim>\<open>+0\<close>.\<close>

fun js_div :: "jsnum \<Rightarrow> jsnum \<Rightarrow> jsnum" where
  "js_div (Fin a) (Fin b) =
     (if b \<noteq> 0 then Fin (a / b) else if a = 0 then NaN else if 0 < a then PInf else NInf)"
| "js_div NaN _ = NaN"
| "js_div _ NaN = NaN"
| "js_div (Fin a) PInf = Fin 0"
| "js_div (Fin a) NInf = Fin 0"
| "js_div PInf (Fin b) = (if 0 \<le> b then PInf else NInf)"
| "js_div NInf (Fin b) = (if 0 \<le> b then NInf else PInf)"
| "js_div PInf PInf = NaN"
| "js_div PInf NInf = NaN"
| "js_div NInf PInf = NaN"
| "js_div NInf NInf = NaN"

text \<open>
  Overflow: a binary64 operation whose exact result has magnitude at least
  \<^verbatim>\<open>2^1024 - 2^970\<close> (the largest finite double plus half a unit in its last place) gives
  an infinity of the same sign. \<open>ov\<close> applies this to the result of an operation.
\<close>

definition overflow_threshold :: real where
  "overflow_threshold = 2 ^ 1024 - 2 ^ 970"

definition overflow :: "real \<Rightarrow> jsnum" where
  "overflow x =
     (if overflow_threshold \<le> x then PInf
      else if x \<le> - overflow_threshold then NInf
      else Fin x)"

fun ov :: "jsnum \<Rightarrow> jsnum" where
  "ov (Fin x) = overflow x"
| "ov PInf = PInf"
| "ov NInf = NInf"
| "ov NaN = NaN"

definition ov_add :: "jsnum \<Rightarrow> jsnum \<Rightarrow> jsnum" where
  "ov_add x y = ov (js_add x y)"

definition ov_sub :: "jsnum \<Rightarrow> jsnum \<Rightarrow> jsnum" where
  "ov_sub x y = ov (js_sub x y)"

definition ov_div :: "jsnum \<Rightarrow> jsnum \<Rightarrow> jsnum" where
  "ov_div x y = ov (js_div x y)"

text \<open>\<^verbatim>\<open>Math.abs\<close>, \<^verbatim>\<open>Math.sqrt\<close> and \<^verbatim>\<open>Math.pow(x, 2)\<close>.\<close>

fun js_abs :: "jsnum \<Rightarrow> jsnum" where
  "js_abs (Fin a) = Fin \<bar>a\<bar>"
| "js_abs PInf = PInf"
| "js_abs NInf = PInf"
| "js_abs NaN = NaN"

fun js_sqrt :: "jsnum \<Rightarrow> jsnum" where
  "js_sqrt (Fin a) = (if a < 0 then NaN else Fin (sqrt a))"
| "js_sqrt PInf = PInf"
| "js_sqrt NInf = NaN"
| "js_sqrt NaN = NaN"

definition js_pow2 :: "jsnum \<Rightarrow> jsnum" where
  "js_pow2 x = js_mul x x"

text \<open>The comparisons \<^verbatim>\<open><\<close>, \<^verbatim>\<open>>\<close> and \<^verbatim>\<open>===\<close> on numbers.\<close>

fun js_lt :: "jsnum \<Rightarrow> jsnum \<Rightarrow> bool" where
  "js_lt (Fin a) (Fin b) = (a < b)"
| "js_lt NaN _ = False"
| "js_lt _ NaN = False"
| "js_lt PInf _ = False"
| "js_lt _ NInf = False"
| "js_lt NInf _ = True"
| "js_lt _ PInf = True"

definition js_gt :: "jsnum \<Rightarrow> jsnum \<Rightarrow> bool" where
  "js_gt x y = js_lt y x"

fun js_eq :: "jsnum \<Rightarrow> jsnum \<Rightarrow> bool" where
  "js_eq NaN _ = False"
| "js_eq _ NaN = False"
| "js_eq x y = (x = y)"

text \<open>
  Truthiness of a number, and of a value that is a number or \<^verbatim>\<open>null\<close>/\<^verbatim>\<open>undefined\<close>
  (\<open>None\<close>): \<^verbatim>\<open>if (x)\<close> passes for every number except 0 and NaN.
\<close>

fun truthy :: "jsnum \<Rightarrow> bool" where
  "truthy (Fin a) = (a \<noteq> 0)"
| "truthy PInf = True"
| "truthy NInf = True"
| "truthy NaN = False"

fun truthy_opt :: "jsnum option \<Rightarrow> bool" where
  "truthy_opt None = False"
| "truthy_opt (Some x) = truthy x"

section \<open>Candles and array helpers\<close>

text \<open>
  A candle as \<^verbatim>\<open>fetchGoldData\<close> builds it. The numeric fields are finite numbers; candles
  whose close is \<^verbatim>\<open>null\<close> are filtered out before the analysis sees them.
\<close>

record candle =
  time :: int
  c_open :: real
  high :: real
  low :: real
  close :: real
  volume :: real

text \<open>
  \<^verbatim>\<open>xs.slice(-n)\<close>: the last \<open>n\<close> elements, the whole array when it is shorter, and also
  the whole array for \<open>n = 0\<close> (\<^verbatim>\<open>slice(-0)\<close> is \<^verbatim>\<open>slice(0)\<close>).
\<close>

definition slice_last :: "'a list \<Rightarrow> nat \<Rightarrow> 'a list" where
  "slice_last xs n = (if n = 0 then xs else drop (length xs - n) xs)"

text \<open>\<^verbatim>\<open>xs.reduce((sum, item) => sum + item.close, 0)\<close>\<close>

definition sum_close :: "candle list \<Rightarrow> jsnum" where
  "sum_close xs = foldl (\<lambda>sum item. js_add sum (Fin (close item))) (Fin 0) xs"

text \<open>
  \<^verbatim>\<open>data[k].close\<close> at a computed index: outside the array \<^verbatim>\<open>data[k]\<close> is
  \<^verbatim>\<open>undefined\<close> and reading its property throws a TypeError.
\<close>

datatype exn = TypeError

definition item_at :: "candle list \<Rightarrow> int \<Rightarrow> exn + candle" where
  "item_at data k =
     (if 0 \<le> k \<and> k < int (length data) then Inr (data ! nat k) else Inl TypeError)"

section \<open>TechnicalAnalysis\<close>

text \<open>
  A result \<open>None\<close> is the source's \<^verbatim>\<open>return null\<close>. On an array of candles
  \<^verbatim>\<open>slice\<close>, \<^verbatim>\<open>reduce\<close> and the arithmetic cannot throw, and the loop of
  \<^verbatim>\<open>calculateEMA\<close> reads \<^verbatim>\<open>data[i]\<close> only for \<open>i\<close> below the length; the one place
  where an index is computed by subtraction is the loop of \<^verbatim>\<open>calculateRSI\<close>, whose
  result therefore is an exception or a value.
\<close>

definition calculateSMA :: "candle list \<Rightarrow> nat \<Rightarrow> jsnum option" where
  "calculateSMA data period =
     (if length data < period then None
      else Some (js_div (sum_close (slice_last data period)) (Fin (real period))))"

definition calculateEMA :: "candle list \<Rightarrow> nat \<Rightarrow> jsnum option" where
  "calculateEMA data period =
     (if length data < period then None
      else
        let multiplier = js_div (Fin 2) (Fin (real period + 1));
            ema0 = js_div (sum_close (take period data)) (Fin (real period))
        in Some (foldl (\<lambda>ema item.
                   js_add (js_mul (Fin (close item)) multiplier)
                          (js_mul ema (js_sub (Fin 1) multiplier)))
                 ema0 (drop period data)))"

text \<open>
  The loop of \<^verbatim>\<open>calculateRSI\<close>, \<^verbatim>\<open>for (let i = 1; i <= period; i++)\<close>, reading the
  candles from the end of the array. A change between two finite closes can overflow,
  and so can the two running sums and the quotients taken of them afterwards.
\<close>

function rsi_loop :: "candle list \<Rightarrow> nat \<Rightarrow> nat \<Rightarrow> jsnum \<times> jsnum \<Rightarrow> exn + jsnum \<times> jsnum" where
  "rsi_loop data period i (gains, losses) =
     (if i \<le> period then
        (case item_at data (int (length data) - int i) of
           Inl e \<Rightarrow> Inl e
         | Inr a \<Rightarrow>
            (case item_at data (int (length data) - int i - 1) of
               Inl e \<Rightarrow> Inl e
             | Inr b \<Rightarrow>
                (let change = ov_sub (Fin (close a)) (Fin (close b))
                 in if js_gt change (Fin 0)
                    then rsi_loop data period (i + 1) (ov_add gains change, losses)
                    else rsi_loop data period (i + 1) (gains, ov_add losses (js_abs change)))))
      else Inr (gains, losses))"
  by pat_completeness auto
termination
  by (relation "measure (\<lambda>(data, period, i, acc). Suc period - i)") auto

definition calculateRSI :: "candle list \<Rightarrow> nat \<Rightarrow> exn + jsnum option" where
  "calculateRSI data period =
     (if length data < period + 1 then Inr None
      else
        (case rsi_loop data period 1 (Fin 0, Fin 0) of
           Inl e \<Rightarrow> Inl e
         | Inr (gains, losses) \<Rightarrow>
            (let avgGain = ov_div gains (Fin (real period));
                 avgLoss = ov_div losses (Fin (real period))
             in if js_eq avgLoss (Fin 0) then Inr (Some (Fin 100))
                else
                  (let rs = ov_div avgGain avgLoss
                   in Inr (Some (ov_sub (Fin 100) (ov_div (Fin 100) (ov_add (Fin 1) rs))))))))"

record bands =
  upper :: jsnum
  middle :: jsnum
  lower :: jsnum
  width :: jsnum

definition calculateBollingerBands :: "candle list \<Rightarrow> nat \<Rightarrow> jsnum \<Rightarrow> bands option" where
  "calculateBollingerBands data period multiplier =
     (if length data < period then None
      else
        (case calculateSMA data period of
           None \<Rightarrow> None
         | Some sma \<Rightarrow>
            if \<not> truthy sma then None
            else
              (let slice = slice_last data period;
                   variance =
                     js_div (foldl (\<lambda>sum item. js_add sum (js_pow2 (js_sub (Fin (close item)) sma)))
                               (Fin 0) slice)
                            (Fin (real period));
                   stdDev = js_sqrt variance
               in Some \<lparr>upper = js_add sma (js_mul stdDev multiplier),
                        middle = sma,
                        lower = js_sub sma (js_mul stdDev multiplier),
                        width = js_mul (js_div (js_mul (js_mul stdDev multiplier) (Fin 2)) sma)
                                  (Fin 100)\<rparr>)))"

section \<open>PatternRecognition\<close>

text \<open>
  The objects \<^verbatim>\<open>{ index, price }\<close> pushed on \<^verbatim>\<open>highs\<close> and \<^verbatim>\<open>lows\<close>, and the pattern
  objects. A double top carries \<^verbatim>\<open>resistance\<close>, a double bottom \<^verbatim>\<open>support\<close>; the other
  one is absent.
\<close>

record extremum =
  index :: nat
  ex_price :: jsnum

record pattern =
  ptype :: string
  pconfidence :: int
  description :: string
  resistance :: "jsnum option"
  support :: "jsnum option"

text \<open>
  One iteration of \<^verbatim>\<open>for (let i = 1; i < data.length - 1; i++)\<close>; both neighbours of
  \<open>i\<close> are inside the array.
\<close>

definition scan_step :: "candle list \<Rightarrow> extremum list \<times> extremum list \<Rightarrow> nat
    \<Rightarrow> extremum list \<times> extremum list" where
  "scan_step data acc i =
     (let highs = fst acc; lows = snd acc;
          highs' = (if high (data ! i) > high (data ! (i - 1)) \<and> high (data ! i) > high (data ! (i + 1))
                    then highs @ [\<lparr>index = i, ex_price = Fin (high (data ! i))\<rparr>] else highs);
          lows' = (if low (data ! i) < low (data ! (i - 1)) \<and> low (data ! i) < low (data ! (i + 1))
                   then lows @ [\<lparr>index = i, ex_price = Fin (low (data ! i))\<rparr>] else lows)
      in (highs', lows'))"

definition find_extrema :: "candle list \<Rightarrow> extremum list \<times> extremum list" where
  "find_extrema data = foldl (scan_step data) ([], []) [1..<length data - 1]"

text \<open>
  The two blocks after the loop. \<open>mk\<close> builds the pattern object from \<^verbatim>\<open>avgPrice\<close>.
\<close>

definition priceDiff :: "extremum list \<Rightarrow> jsnum" where
  "priceDiff lastTwo = js_abs (js_sub (ex_price (lastTwo ! 0)) (ex_price (lastTwo ! 1)))"

definition avgPrice :: "extremum list \<Rightarrow> jsnum" where
  "avgPrice lastTwo = js_div (js_add (ex_price (lastTwo ! 0)) (ex_price (lastTwo ! 1))) (Fin 2)"

definition double_top :: "jsnum \<Rightarrow> pattern" where
  "double_top avg =
     \<lparr>ptype = ''DOUBLE_TOP'', pconfidence = 75,
      description = ''Potential reversal - Consider SELL'',
      resistance = Some avg, support = None\<rparr>"

definition double_bottom :: "jsnum \<Rightarrow> pattern" where
  "double_bottom avg =
     \<lparr>ptype = ''DOUBLE_BOTTOM'', pconfidence = 75,
      description = ''Potential reversal - Consider BUY'',
      resistance = None, support = Some avg\<rparr>"

definition check_double :: "extremum list \<Rightarrow> (jsnum \<Rightarrow> pattern) \<Rightarrow> pattern list" where
  "check_double extrema mk =
     (if length extrema \<ge> 2 then
        (let lastTwo = slice_last extrema 2
         in if js_lt (js_div (priceDiff lastTwo) (avgPrice lastTwo)) (Fin (1 / 100))
            then [mk (avgPrice lastTwo)] else [])
      else [])"

definition detectDoubleTopBottom :: "candle list \<Rightarrow> pattern list" where
  "detectDoubleTopBottom data =
     (let (highs, lows) = find_extrema data
      in check_double highs double_top @ check_double lows double_bottom)"

definition detectPatterns :: "candle list \<Rightarrow> pattern list" where
  "detectPatterns data =
     (if length data < 20 then []
      else (let recent = slice_last data 20 in [] @ detectDoubleTopBottom recent))"

section \<open>The cache and fetchGoldData\<close>

text \<open>
  \<^verbatim>\<open>marketDataCache\<close> is module state. Its \<^verbatim>\<open>indicators\<close> object is \<^verbatim>\<open>{}\<close> until the first
  computation, so every field may be missing (\<open>None\<close>); \<^verbatim>\<open>calculateSMA\<close> and the others
  also store \<^verbatim>\<open>null\<close> there, which the code never tells apart from missing.
\<close>

record indicators =
  sma20 :: "jsnum option"
  sma50 :: "jsnum option"
  ema12 :: "jsnum option"
  rsi :: "jsnum option"
  bollinger :: "bands option"

record cache =
  prices :: "candle list"
  indicators :: indicators
  patterns :: "pattern list"
  lastUpdate :: "int option"
  source :: "string option"

definition no_indicators :: indicators where
  "no_indicators = \<lparr>sma20 = None, sma50 = None, ema12 = None, rsi = None, bollinger = None\<rparr>"

definition initial_cache :: cache where
  "initial_cache =
     \<lparr>prices = [], indicators = no_indicators, patterns = [], lastUpdate = None, source = None\<rparr>"

text \<open>
  \<^verbatim>\<open>fetchGoldData\<close> from the point where the response has been turned into
  \<^verbatim>\<open>formattedData\<close> (the candles with a close, oldest first); \<open>now\<close> is the value of
  \<^verbatim>\<open>new Date()\<close>. The request itself is outside the model. The function runs inside
  \<^verbatim>\<open>try\<close>: an exception leaves the assignments made so far and returns \<^verbatim>\<open>false\<close>.
\<close>

definition fetchGoldData :: "candle list \<Rightarrow> int \<Rightarrow> cache \<Rightarrow> cache \<times> bool" where
  "fetchGoldData formattedData now c =
     (let c1 = c\<lparr>prices := slice_last formattedData 100,
                 lastUpdate := Some now,
                 source := Some ''Yahoo Finance''\<rparr>;
          data = prices c1
      in if length data \<ge> 20 then
           (case calculateRSI data 14 of
              Inl e \<Rightarrow> (c1, False)
            | Inr r \<Rightarrow>
               (c1\<lparr>indicators :=
                      \<lparr>sma20 = calculateSMA data 20,
                       sma50 = calculateSMA data 50,
                       ema12 = calculateEMA data 12,
                       rsi = r,
                       bollinger = calculateBollingerBands data 20 (Fin 2)\<rparr>,
                    patterns := detectPatterns data\<rparr>, True))
         else (c1, True))"

section \<open>generateSignal\<close>

text \<open>\<^verbatim>\<open>s.includes(sub)\<close>: \<open>sub\<close> occurs in \<open>s\<close> as a contiguous substring.\<close>

fun js_includes :: "string \<Rightarrow> string \<Rightarrow> bool" where
  "js_includes [] sub = (sub = [])"
| "js_includes (c # s) sub = (prefix sub (c # s) \<or> js_includes s sub)"

text \<open>
  A rationale entry is a template literal: literal text and \<^verbatim>\<open>x.toFixed(d)\<close> holes, kept
  unformatted.
\<close>

datatype part = Lit string | ToFixed jsnum nat

type_synonym reason = "part list"

text \<open>
  The three mutable locals \<^verbatim>\<open>signal\<close>, \<^verbatim>\<open>confidence\<close>, \<^verbatim>\<open>reasons\<close>, and the three
  blocks of \<^verbatim>\<open>generateSignal\<close> that update them in turn.
\<close>

record verdict =
  signal :: string
  confidence :: int
  reasons :: "reason list"

definition rsi_step :: "jsnum \<Rightarrow> verdict \<Rightarrow> verdict" where
  "rsi_step r v =
     (if js_lt r (Fin 25) then
        v\<lparr>signal := ''STRONG_BUY'', confidence := confidence v + 40,
          reasons := reasons v @ [[Lit ''RSI oversold ('', ToFixed r 1, Lit '')'']]\<rparr>
      else if js_lt r (Fin 35) then
        v\<lparr>signal := ''BUY'', confidence := confidence v + 25,
          reasons := reasons v @ [[Lit ''RSI low ('', ToFixed r 1, Lit '')'']]\<rparr>
      else if js_gt r (Fin 75) then
        v\<lparr>signal := ''STRONG_SELL'', confidence := confidence v + 40,
          reasons := reasons v @ [[Lit ''RSI overbought ('', ToFixed r 1, Lit '')'']]\<rparr>
      else if js_gt r (Fin 65) then
        v\<lparr>signal := ''SELL'', confidence := confidence v + 25,
          reasons := reasons v @ [[Lit ''RSI high ('', ToFixed r 1, Lit '')'']]\<rparr>
      else v)"

definition ma_step :: "jsnum \<Rightarrow> jsnum option \<Rightarrow> jsnum option \<Rightarrow> verdict \<Rightarrow> verdict" where
  "ma_step currentPrice s20 s50 v =
     (case (s20, s50) of
        (Some a, Some b) \<Rightarrow>
          if truthy a \<and> truthy b then
            (if js_gt currentPrice a \<and> js_gt a b \<and> js_includes (signal v) ''BUY''
             then v\<lparr>confidence := confidence v + 15,
                    reasons := reasons v @ [[Lit ''Bullish MA trend'']]\<rparr>
             else if js_lt currentPrice a \<and> js_lt a b \<and> js_includes (signal v) ''SELL''
             then v\<lparr>confidence := confidence v + 15,
                    reasons := reasons v @ [[Lit ''Bearish MA trend'']]\<rparr>
             else v)
          else v
      | _ \<Rightarrow> v)"

definition bollinger_step :: "jsnum \<Rightarrow> bands option \<Rightarrow> verdict \<Rightarrow> verdict" where
  "bollinger_step currentPrice bb v =
     (case bb of
        None \<Rightarrow> v
      | Some b \<Rightarrow>
         if js_lt currentPrice (lower b) \<and> js_includes (signal v) ''BUY''
         then v\<lparr>confidence := confidence v + 15,
                reasons := reasons v @ [[Lit ''Below lower Bollinger'']]\<rparr>
         else if js_gt currentPrice (upper b) \<and> js_includes (signal v) ''SELL''
         then v\<lparr>confidence := confidence v + 15,
                reasons := reasons v @ [[Lit ''Above upper Bollinger'']]\<rparr>
         else v)"

text \<open>
  The returned object. The early return \<^verbatim>\<open>{ signal: 'NO_DATA', confidence: 0 }\<close> has
  only two properties: the other four are missing (\<open>None\<close>). The guard
  \<^verbatim>\<open>!marketDataCache.indicators.rsi\<close> holds when the field is missing or \<^verbatim>\<open>null\<close>, and
  also when it is the number 0 or NaN.
\<close>

record analysis =
  a_signal :: string
  a_confidence :: int
  a_reasons :: "reason list option"
  a_price :: "jsnum option"
  a_indicators :: "indicators option"
  a_patterns :: "pattern list option"

definition no_data :: analysis where
  "no_data =
     \<lparr>a_signal = ''NO_DATA'', a_confidence = 0, a_reasons = None, a_price = None,
      a_indicators = None, a_patterns = None\<rparr>"

definition generateSignal :: "cache \<Rightarrow> analysis" where
  "generateSignal c =
     (case rsi (indicators c) of
        None \<Rightarrow> no_data
      | Some r \<Rightarrow>
         if \<not> truthy r \<or> length (prices c) = 0 then no_data
         else
           (let currentPrice = Fin (close (prices c ! (length (prices c) - 1)));
                v0 = \<lparr>signal = ''HOLD'', confidence = 0, reasons = []\<rparr>;
                v1 = rsi_step r v0;
                v2 = ma_step currentPrice (sma20 (indicators c)) (sma50 (indicators c)) v1;
                v3 = bollinger_step currentPrice (bollinger (indicators c)) v2
            in \<lparr>a_signal = signal v3,
                a_confidence = min (confidence v3) 95,
                a_reasons = Some (reasons v3),
                a_price = Some currentPrice,
                a_indicators = Some (indicators c),
                a_patterns = Some (take 3 (patterns c))\<rparr>))"

section \<open>Windows, sums and extremes in the words of the specification\<close>

text \<open>
  The close-to-close change of the \<open>i\<close>-th most recent transition, and the sums of the
  upward changes and of the downward changes (absolute) over the transitions \<open>i\<close> to
  \<open>period\<close>, counted from the end.
\<close>

definition change_at :: "candle list \<Rightarrow> nat \<Rightarrow> real" where
  "change_at data i = close (data ! (length data - i)) - close (data ! (length data - i - 1))"

definition upward_sum :: "candle list \<Rightarrow> nat \<Rightarrow> nat \<Rightarrow> real" where
  "upward_sum data i period =
     (\<Sum>k\<leftarrow>[i..<Suc period]. if change_at data k > 0 then change_at data k else 0)"

definition downward_sum :: "candle list \<Rightarrow> nat \<Rightarrow> nat \<Rightarrow> real" where
  "downward_sum data i period =
     (\<Sum>k\<leftarrow>[i..<Suc period]. if change_at data k > 0 then 0 else \<bar>change_at data k\<bar>)"

text \<open>The quotient of the average gain by the average loss.\<close>

definition relative_strength :: "candle list \<Rightarrow> nat \<Rightarrow> real" where
  "relative_strength data period =
     (upward_sum data 1 period / real period) / (downward_sum data 1 period / real period)"

text \<open>
  The mean of the closes over the trailing window and their population variance
  (divisor \<open>period\<close>).
\<close>

definition window_mean :: "candle list \<Rightarrow> nat \<Rightarrow> real" where
  "window_mean data period = sum_list (map close (slice_last data period)) / real period"

definition window_variance :: "candle list \<Rightarrow> nat \<Rightarrow> real" where
  "window_variance data period =
     (\<Sum>c\<leftarrow>slice_last data period. (close c - window_mean data period)\<^sup>2) / real period"








section \<open>Sample inputs\<close>

text \<open>A candle whose four prices are all \<open>k\<close>, and a candle given by high, low and close.\<close>

definition flat_candle :: "real \<Rightarrow> candle" where
  "flat_candle k = \<lparr>time = 0, c_open = k, high = k, low = k, close = k, volume = 0\<rparr>"


text \<open>
  A cache on which every rule of \<^verbatim>\<open>generateSignal\<close> fires: oscillator 10, price 9 above
  the short average 8 above the long average 7, price below the lower band 10; four patterns.
\<close>

definition sample_cache :: cache where
  "sample_cache =
     \<lparr>prices = [flat_candle 9],
      indicators =
        \<lparr>sma20 = Some (Fin 8), sma50 = Some (Fin 7), ema12 = None, rsi = Some (Fin 10),
         bollinger = Some \<lparr>upper = Fin 12, middle = Fin 11, lower = Fin 10, width = Fin 36\<rparr>\<rparr>,
      patterns = [double_top (Fin 1), double_bottom (Fin 2), double_top (Fin 3), double_top (Fin 4)],
      lastUpdate = None, source = None\<rparr>"

text \<open>
  Twenty candles whose last fourteen close-to-close changes are one change of 0 followed
  by thirteen losses of 1.
\<close>

definition falling_data :: "candle list" where
  "falling_data =
     map flat_candle [20, 20, 20, 20, 20, 20, 20, 19, 18, 17, 16, 15, 14, 13, 12, 11, 10, 9, 8, 7]"





text \<open>
  Fifty candles whose closes sum to 0, so that the average over 50 is 0, while the
  average over the last 20 is 21.15, the last close is 88 and the last 14 changes are one
  gain of 1 followed by thirteen losses of 1; and the cache after \<^verbatim>\<open>fetchGoldData\<close> has
  stored them.
\<close>

definition zero_average_data :: "candle list" where
  "zero_average_data =
     map flat_candle (replicate 29 (- 14) @ [- 17] @ replicate 5 (- 200)
       @ [100, 101, 100, 99, 98, 97, 96, 95, 94, 93, 92, 91, 90, 89, 88])"

definition zero_average_cache :: cache where
  "zero_average_cache = fst (fetchGoldData zero_average_data 0 initial_cache)"

section \<open>The rule chain keeps the label\<close>

lemma rsi_step_not_no_data:
  "signal (rsi_step r \<lparr>signal = ''HOLD'', confidence = 0, reasons = []\<rparr>) \<noteq> ''NO_DATA''"
  by (simp add: rsi_step_def)

lemma ma_step_signal: "signal (ma_step p a b v) = signal v"
  by (simp add: ma_step_def split: option.splits)

lemma bollinger_step_signal: "signal (bollinger_step p bb v) = signal v"
  by (simp add: bollinger_step_def split: option.splits)

section \<open>Short input\<close>

text \<open>
  C3: on a candle sequence shorter than the period, the simple and the exponential
  moving average and the volatility bands are \<^verbatim>\<open>null\<close>, and on one shorter than
  \<open>period + 1\<close> so is the momentum oscillator: each function returns before it computes
  anything, and in particular the oscillator returns normally (\<open>Inr\<close>), not by a
  TypeError.
\<close>

theorem short_input_is_absent:
  "(length data < period \<longrightarrow>
      calculateSMA data period = None \<and> calculateEMA data period = None
      \<and> calculateBollingerBands data period multiplier = None)
   \<and> (length data < period + 1 \<longrightarrow> calculateRSI data period = Inr None)"
  by (simp add: calculateSMA_def calculateEMA_def calculateBollingerBands_def calculateRSI_def)

theorem short_input_is_absent_witness:
  "length [flat_candle 5, flat_candle 6] < 3
   \<and> calculateSMA [flat_candle 5, flat_candle 6] 3 = None
   \<and> calculateEMA [flat_candle 5, flat_candle 6] 3 = None
   \<and> calculateBollingerBands [flat_candle 5, flat_candle 6] 3 (Fin 2) = None
   \<and> length [flat_candle 5, flat_candle 6] < 2 + 1
   \<and> calculateRSI [flat_candle 5, flat_candle 6] 2 = Inr None"
  using short_input_is_absent [of "[flat_candle 5, flat_candle 6]" 3 "Fin 2"]
    short_input_is_absent [of "[flat_candle 5, flat_candle 6]" 2 "Fin 2"]
  by simp

text \<open>
  C6: pattern detection on fewer than 20 candles returns the empty list; 19 candles
  are the witness.
\<close>

theorem detectPatterns_short: "length data < 20 \<Longrightarrow> detectPatterns data = []"
  by (simp add: detectPatterns_def)

theorem detectPatterns_short_witness:
  "length (replicate 19 (flat_candle 1)) < 20 \<and> detectPatterns (replicate 19 (flat_candle 1)) = []"
  using detectPatterns_short [of "replicate 19 (flat_candle 1)"] by simp

section \<open>The synthesizer\<close>

text \<open>
  C9: whatever the cache holds, the confidence of the object \<^verbatim>\<open>generateSignal\<close> returns
  is at most 95.
\<close>

theorem confidence_at_most_95: "a_confidence (generateSignal c) \<le> 95"
  by (simp add: generateSignal_def no_data_def Let_def split: option.splits)

theorem confidence_at_most_95_witness:
  "a_confidence (generateSignal sample_cache) = 70
   \<and> a_confidence (generateSignal sample_cache) \<le> 95"
proof -
  have "a_confidence (generateSignal sample_cache) = 70" by code_simp
  with confidence_at_most_95 [of sample_cache] show ?thesis by simp
qed

text \<open>
  C10: the pattern list of the cache has no influence on the result except through the
  \<^verbatim>\<open>patterns\<close> property: replacing it by any other list \<open>ps\<close> leaves the label, the
  confidence, the rationale list, the price and the indicators of the result as they
  were, and the \<^verbatim>\<open>patterns\<close> property is the first three entries of the list (it is
  missing from the \<^verbatim>\<open>NO_DATA\<close> result).
\<close>

theorem patterns_only_copied:
  "a_signal (generateSignal (c\<lparr>patterns := ps\<rparr>)) = a_signal (generateSignal c)
   \<and> a_confidence (generateSignal (c\<lparr>patterns := ps\<rparr>)) = a_confidence (generateSignal c)
   \<and> a_reasons (generateSignal (c\<lparr>patterns := ps\<rparr>)) = a_reasons (generateSignal c)
   \<and> a_price (generateSignal (c\<lparr>patterns := ps\<rparr>)) = a_price (generateSignal c)
   \<and> a_indicators (generateSignal (c\<lparr>patterns := ps\<rparr>)) = a_indicators (generateSignal c)
   \<and> a_patterns (generateSignal (c\<lparr>patterns := ps\<rparr>)) =
       (if a_signal (generateSignal c) = ''NO_DATA'' then None else Some (take 3 ps))"
  by (simp add: generateSignal_def no_data_def Let_def ma_step_signal bollinger_step_signal
      rsi_step_not_no_data split: option.splits)

theorem patterns_only_copied_witness:
  "a_signal (generateSignal sample_cache) = ''STRONG_BUY''
   \<and> a_signal (generateSignal (sample_cache\<lparr>patterns := []\<rparr>)) = ''STRONG_BUY''
   \<and> a_confidence (generateSignal (sample_cache\<lparr>patterns := []\<rparr>)) = 70
   \<and> a_patterns (generateSignal (sample_cache\<lparr>patterns := []\<rparr>)) = Some []
   \<and> a_patterns (generateSignal sample_cache)
       = Some [double_top (Fin 1), double_bottom (Fin 2), double_top (Fin 3)]"
proof -
  have e: "a_signal (generateSignal sample_cache) = ''STRONG_BUY''"
    "a_confidence (generateSignal sample_cache) = 70"
    "a_patterns (generateSignal sample_cache)
       = Some [double_top (Fin 1), double_bottom (Fin 2), double_top (Fin 3)]"
    by code_simp+
  from patterns_only_copied [where c = sample_cache and ps = "[]"] e
  show ?thesis by simp
qed

text \<open>
  The moving-average block when both averages pass the test \<^verbatim>\<open>sma20 && sma50\<close>: it adds
  exactly 15 to the confidence and appends one rationale entry if and only if price >
  MA20 > MA50 and the label contains \<^verbatim>\<open>BUY\<close>, or price < MA20 < MA50 and the label
  contains \<^verbatim>\<open>SELL\<close>; otherwise it adds nothing; it never changes the label.
\<close>

lemma ma_step_confirmation:
  "truthy a \<Longrightarrow> truthy b \<Longrightarrow>
   ((confidence (ma_step p (Some a) (Some b) v) = confidence v + 15
      \<and> (\<exists>r. reasons (ma_step p (Some a) (Some b) v) = reasons v @ [r]))
     \<longleftrightarrow> (js_gt p a \<and> js_gt a b \<and> js_includes (signal v) ''BUY'')
         \<or> (js_lt p a \<and> js_lt a b \<and> js_includes (signal v) ''SELL''))
   \<and> ((confidence (ma_step p (Some a) (Some b) v) = confidence v
        \<and> reasons (ma_step p (Some a) (Some b) v) = reasons v)
       \<or> (confidence (ma_step p (Some a) (Some b) v) = confidence v + 15
        \<and> (\<exists>r. reasons (ma_step p (Some a) (Some b) v) = reasons v @ [r])))
   \<and> signal (ma_step p (Some a) (Some b) v) = signal v"
  by (simp add: ma_step_def)

text \<open>
  An average that is present but is the number 0 does not pass the test: price 2 > MA20
  1 > MA50 0 and the label is \<^verbatim>\<open>BUY\<close>, yet the block is skipped.
\<close>

lemma ma_step_zero_average:
  "js_gt (Fin 2) (Fin 1) \<and> js_gt (Fin 1) (Fin 0) \<and> js_includes ''BUY'' ''BUY''
   \<and> ma_step (Fin 2) (Some (Fin 1)) (Some (Fin 0))
        \<lparr>signal = ''BUY'', confidence = 25, reasons = []\<rparr>
       = \<lparr>signal = ''BUY'', confidence = 25, reasons = []\<rparr>"
  by code_simp

section \<open>The momentum oscillator\<close>

lemma upward_sum_nonneg: "0 \<le> upward_sum data i period"
  unfolding upward_sum_def by (rule sum_list_nonneg) auto

lemma downward_sum_nonneg: "0 \<le> downward_sum data i period"
  unfolding downward_sum_def by (rule sum_list_nonneg) auto

lemma upward_sum_step:
  "i \<le> period \<Longrightarrow> upward_sum data i period =
     (if change_at data i > 0 then change_at data i else 0) + upward_sum data (Suc i) period"
  by (simp add: upward_sum_def upt_conv_Cons del: upt_Suc)

lemma downward_sum_step:
  "i \<le> period \<Longrightarrow> downward_sum data i period =
     (if change_at data i > 0 then 0 else \<bar>change_at data i\<bar>) + downward_sum data (Suc i) period"
  by (simp add: downward_sum_def upt_conv_Cons del: upt_Suc)

lemma sums_done:
  "period < i \<Longrightarrow> upward_sum data i period = 0"
  "period < i \<Longrightarrow> downward_sum data i period = 0"
  by (simp_all add: upward_sum_def downward_sum_def)

lemma item_at_window:
  assumes "1 \<le> i" "i \<le> period" "period < length data"
  shows "item_at data (int (length data) - int i) = Inr (data ! (length data - i))"
    and "item_at data (int (length data) - int i - 1) = Inr (data ! (length data - i - 1))"
proof -
  have a: "nat (int (length data) - int i) = length data - i" by simp
  have b: "nat (int (length data) - int i - 1) = length data - i - 1" by simp
  from assms show "item_at data (int (length data) - int i) = Inr (data ! (length data - i))"
    unfolding item_at_def a by simp
  from assms show "item_at data (int (length data) - int i - 1) = Inr (data ! (length data - i - 1))"
    unfolding item_at_def b by simp
qed

text \<open>The threshold is far above the constants of the oscillator.\<close>

lemma threshold_large: "2 ^ 970 \<le> overflow_threshold"
proof -
  have "(2::real) ^ 970 * 2 \<le> 2 ^ 970 * 2 ^ 54" by (intro mult_left_mono) simp_all
  also have "\<dots> = 2 ^ 1024" by (simp flip: power_add)
  finally show ?thesis by (simp add: overflow_threshold_def)
qed

lemma threshold_above_1000: "1000 < overflow_threshold"
proof -
  have "(1000::real) < 2 ^ 10" by simp
  also have "\<dots> \<le> 2 ^ 970" by (intro power_increasing) simp_all
  finally show ?thesis using threshold_large by simp
qed

lemma overflow_small: "\<bar>x\<bar> \<le> 1000 \<Longrightarrow> overflow x = Fin x"
  using threshold_above_1000 by (auto simp: overflow_def)

lemma overflow_nonneg_cases:
  "0 \<le> x \<Longrightarrow> overflow x = (if overflow_threshold \<le> x then PInf else Fin x)"
  using threshold_above_1000 by (auto simp: overflow_def)

text \<open>Adding nonnegative numbers with overflow is adding them and overflowing once.\<close>

lemma ov_add_overflow:
  "0 \<le> g \<Longrightarrow> 0 \<le> c \<Longrightarrow> ov_add (overflow g) (overflow c) = overflow (g + c)"
  using threshold_above_1000 by (auto simp: ov_add_def overflow_def)

lemma js_abs_overflow: "js_abs (overflow c) = overflow \<bar>c\<bar>"
  using threshold_above_1000 by (auto simp: overflow_def)

lemma ov_sub_finite: "ov_sub (Fin a) (Fin b) = overflow (a - b)"
  by (simp add: ov_sub_def js_sub_def)

lemma js_gt_overflow_zero: "js_gt (overflow c) (Fin 0) \<longleftrightarrow> 0 < c"
  using threshold_above_1000 by (auto simp: overflow_def js_gt_def)

lemma rsi_loop_sums:
  "1 \<le> i \<Longrightarrow> period < length data \<Longrightarrow> 0 \<le> g \<Longrightarrow> 0 \<le> l \<Longrightarrow>
   rsi_loop data period i (overflow g, overflow l)
     = Inr (overflow (g + upward_sum data i period), overflow (l + downward_sum data i period))"
proof (induction "Suc period - i" arbitrary: i g l)
  case 0
  then have "period < i" by simp
  then show ?case by (simp add: sums_done)
next
  case (Suc n)
  then have le: "i \<le> period" by simp
  have n: "n = Suc period - Suc i" using Suc.hyps(2) by simp
  let ?c = "change_at data i"
  have ch: "ov_sub (Fin (close (data ! (length data - i)))) (Fin (close (data ! (length data - i - 1))))
              = overflow ?c"
    by (simp add: ov_sub_finite change_at_def)
  show ?case
  proof (cases "0 < ?c")
    case True
    have g': "0 \<le> g + ?c" using True Suc.prems(3) by simp
    have ih: "rsi_loop data period (Suc i) (overflow (g + ?c), overflow l)
        = Inr (overflow (g + ?c + upward_sum data (Suc i) period),
               overflow (l + downward_sum data (Suc i) period))"
      using Suc.hyps(1) [OF n _ Suc.prems(2) g' Suc.prems(4)] by simp
    have add: "ov_add (overflow g) (overflow ?c) = overflow (g + ?c)"
      using True Suc.prems(3) by (intro ov_add_overflow) simp_all
    show ?thesis
      apply (subst rsi_loop.simps)
      apply (simp only: item_at_window [OF Suc.prems(1) le Suc.prems(2)] le if_True sum.case
          Let_def ch js_gt_overflow_zero True add)
      apply (simp add: ih upward_sum_step [OF le] downward_sum_step [OF le] True add.assoc
          del: rsi_loop.simps)
      done
  next
    case False
    have l': "0 \<le> l + \<bar>?c\<bar>" using Suc.prems(4) by simp
    have ih: "rsi_loop data period (Suc i) (overflow g, overflow (l + \<bar>?c\<bar>))
        = Inr (overflow (g + upward_sum data (Suc i) period),
               overflow (l + \<bar>?c\<bar> + downward_sum data (Suc i) period))"
      using Suc.hyps(1) [OF n _ Suc.prems(2) Suc.prems(3) l'] by simp
    have add: "ov_add (overflow l) (js_abs (overflow ?c)) = overflow (l + \<bar>?c\<bar>)"
      unfolding js_abs_overflow using Suc.prems(4) by (intro ov_add_overflow) simp_all
    show ?thesis
      apply (subst rsi_loop.simps)
      apply (simp only: item_at_window [OF Suc.prems(1) le Suc.prems(2)] le if_True sum.case
          Let_def ch js_gt_overflow_zero False if_False add)
      apply (simp add: ih upward_sum_step [OF le] downward_sum_step [OF le] False add.assoc
          del: rsi_loop.simps)
      done
  qed
qed

text \<open>
  The value of the oscillator on a long enough sequence, in terms of the two exact sums:
  it is NaN exactly when both sums overflow and the downward one is not zero.
\<close>



lemma calculateRSI_value:
  assumes "1 \<le> period" "period + 1 \<le> length data"
  shows "calculateRSI data period =
     Inr (Some (if downward_sum data 1 period = 0 then Fin 100
                else if overflow_threshold \<le> upward_sum data 1 period
                        \<and> overflow_threshold \<le> downward_sum data 1 period then NaN
                else if overflow_threshold \<le> upward_sum data 1 period then Fin 100
                else if overflow_threshold \<le> downward_sum data 1 period then Fin 0
                else if overflow_threshold \<le> 1 + relative_strength data period then Fin 100
                else Fin (100 - 100 / (1 + relative_strength data period))))"
proof -
  define U where "U = upward_sum data 1 period"
  define D where "D = downward_sum data 1 period"
  define q where "q = relative_strength data period"
  define T where "T = overflow_threshold"
  define P where "P = real period"
  have p: "P \<noteq> 0" "0 < P" "1 \<le> P" using assms(1) by (simp_all add: P_def)
  have T: "1000 < T" unfolding T_def by (rule threshold_above_1000)
  have U: "0 \<le> U" and D: "0 \<le> D"
    unfolding U_def D_def by (rule upward_sum_nonneg, rule downward_sum_nonneg)
  have qdef: "q = (U / P) / (D / P)" by (simp add: q_def relative_strength_def U_def D_def P_def)
  have "rsi_loop data period 1 (overflow 0, overflow 0)
          = Inr (overflow (0 + upward_sum data 1 period), overflow (0 + downward_sum data 1 period))"
    using assms(2) by (intro rsi_loop_sums) simp_all
  then have loop: "rsi_loop data period 1 (Fin 0, Fin 0) = Inr (overflow U, overflow D)"
    by (simp add: overflow_small U_def D_def del: rsi_loop.simps)
  have ovf: "overflow x = (if T \<le> x then PInf else Fin x)" if "0 \<le> x" for x
    unfolding T_def using that by (rule overflow_nonneg_cases)
  have small: "overflow x = Fin x" if "\<bar>x\<bar> \<le> 1000" for x
    using that by (rule overflow_small)
  have avg: "ov_div (overflow x) (Fin P) = (if T \<le> x then PInf else Fin (x / P))"
    if "0 \<le> x" for x
  proof (cases "T \<le> x")
    case True
    then show ?thesis using p that by (simp add: ovf ov_div_def)
  next
    case False
    have "x / P \<le> x / 1" using that p by (intro divide_left_mono) simp_all
    moreover have "0 \<le> x / P" using that p by simp
    ultimately have "\<not> T \<le> x / P" "0 \<le> x / P" using False by auto
    then show ?thesis using False that p by (simp add: ovf ov_div_def)
  qed
  have q: "0 \<le> q" using U D p by (simp add: qdef)
  have fin100: "ov_sub (Fin 100) (Fin 0) = Fin 100" "ov_sub (Fin 100) (Fin 100) = Fin 0"
    "ov_div (Fin 100) (Fin 1) = Fin 100" "ov_add (Fin 1) (Fin 0) = Fin 1"
    by (simp_all add: ov_sub_finite ov_div_def ov_add_def small)
  have head: "calculateRSI data period =
      (if js_eq (ov_div (overflow D) (Fin P)) (Fin 0) then Inr (Some (Fin 100))
       else Inr (Some (ov_sub (Fin 100) (ov_div (Fin 100) (ov_add (Fin 1)
              (ov_div (ov_div (overflow U) (Fin P)) (ov_div (overflow D) (Fin P))))))))"
    using assms(2) unfolding calculateRSI_def loop P_def by (simp add: Let_def)
  have result: "calculateRSI data period =
     Inr (Some (if D = 0 then Fin 100
                else if T \<le> U \<and> T \<le> D then NaN
                else if T \<le> U then Fin 100
                else if T \<le> D then Fin 0
                else if T \<le> 1 + q then Fin 100
                else Fin (100 - 100 / (1 + q))))"
  proof (cases "D = 0")
    case True
    have z: "ov_div (overflow D) (Fin P) = Fin 0" using avg [OF D] T by (simp add: True)
    show ?thesis unfolding head z using True by simp
  next
    case Dnz: False
    then have Dpos: "0 < D" using D by simp
    show ?thesis
    proof (cases "T \<le> D")
      case DT: True
      show ?thesis
      proof (cases "T \<le> U")
        case True
        then show ?thesis unfolding head avg [OF D] avg [OF U] using DT Dnz
          by (simp add: ov_div_def ov_add_def ov_sub_def js_sub_def)
      next
        case False
        then show ?thesis unfolding head avg [OF D] avg [OF U] using DT Dnz
          by (simp add: ov_div_def small fin100)
      qed
    next
      case DT: False
      have al: "D / P \<noteq> 0" using Dpos p by simp
      have alpos: "0 \<le> D / P" using Dpos p by simp
      show ?thesis
      proof (cases "T \<le> U")
        case True
        then show ?thesis unfolding head avg [OF D] avg [OF U] using DT Dnz al alpos
          by (simp add: ov_div_def ov_add_def small fin100)
      next
        case UT: False
        have rs: "ov_div (Fin (U / P)) (Fin (D / P)) = overflow q"
          using al by (simp add: ov_div_def qdef)
        have one: "ov_add (Fin 1) (overflow q) = overflow (1 + q)"
          using ov_add_overflow [of 1 q] q by (simp add: small)
        have pos: "1 \<le> 1 + q" using q by simp
        show ?thesis
        proof (cases "T \<le> 1 + q")
          case True
          then have "overflow (1 + q) = PInf" using pos by (simp add: ovf)
          then show ?thesis unfolding head avg [OF D] avg [OF U] using True DT UT Dnz al
            by (simp add: rs one) (simp add: ov_div_def small fin100)
        next
          case False
          have "100 / (1 + q) \<le> 100 / 1" using pos by (intro divide_left_mono) simp_all
          moreover have "0 \<le> 100 / (1 + q)" using pos by simp
          ultimately have b: "\<bar>100 / (1 + q)\<bar> \<le> 1000" "\<bar>100 - 100 / (1 + q)\<bar> \<le> 1000"
            by linarith+
          have ne: "1 + q \<noteq> 0" using pos by simp
          have ovq: "overflow (1 + q) = Fin (1 + q)" using False pos by (simp add: ovf)
          have d: "ov_div (Fin 100) (Fin (1 + q)) = Fin (100 / (1 + q))"
            using ne b(1) by (simp add: ov_div_def small)
          have e: "ov_sub (Fin 100) (Fin (100 / (1 + q))) = Fin (100 - 100 / (1 + q))"
            using b(2) by (simp add: ov_sub_finite small)
          from False DT UT Dnz al show ?thesis unfolding head avg [OF D] avg [OF U]
            by (simp add: rs one ovq d e)
        qed
      qed
    qed
  qed
  then show ?thesis unfolding U_def D_def q_def T_def .
qed






text \<open>The value on small sums, for evaluating the oscillator on sample data.\<close>

lemma calculateRSI_small:
  assumes "1 \<le> period" "period + 1 \<le> length data"
    and "downward_sum data 1 period \<noteq> 0"
    and "upward_sum data 1 period \<le> 1000" "downward_sum data 1 period \<le> 1000"
    and "1 + relative_strength data period \<le> 1000"
  shows "calculateRSI data period = Inr (Some (Fin (100 - 100 / (1 + relative_strength data period))))"
  using calculateRSI_value [OF assms(1,2)] assms(3-) threshold_above_1000 by simp

section \<open>Scenarios\<close>

text \<open>On flat closes every change in the window is 0.\<close>

lemma flat_change:
  assumes "\<forall>c\<in>set data. close c = k" "1 \<le> i" "i < length data"
  shows "change_at data i = 0"
proof -
  have "data ! (length data - i) \<in> set data" "data ! (length data - i - 1) \<in> set data"
    using assms(2,3) by simp_all
  with assms(1) show ?thesis by (simp add: change_at_def)
qed

lemma sum_list_all_zero:
  "(\<And>x. x \<in> set xs \<Longrightarrow> f x = (0::real)) \<Longrightarrow> sum_list (map f xs) = 0"
  by (induction xs) auto

lemma flat_sums:
  assumes "\<forall>c\<in>set data. close c = k" "1 \<le> i" "period < length data"
  shows "upward_sum data i period = 0" and "downward_sum data i period = 0"
proof -
  have z: "change_at data j = 0" if "i \<le> j" "j \<le> period" for j
    using that assms(2,3) by (intro flat_change [OF assms(1)]) auto
  show "upward_sum data i period = 0"
    unfolding upward_sum_def by (rule sum_list_all_zero) (simp add: z del: upt_Suc)
  show "downward_sum data i period = 0"
    unfolding downward_sum_def by (rule sum_list_all_zero) (simp add: z del: upt_Suc)
qed

text \<open>What \<^verbatim>\<open>fetchGoldData\<close> leaves in the cache.\<close>

lemma set_slice_last: "set (slice_last xs n) \<subseteq> set xs"
  by (simp add: slice_last_def set_drop_subset)

lemma length_slice_last: "length (slice_last xs n) = (if n = 0 then length xs else min n (length xs))"
  by (auto simp: slice_last_def)

lemma prices_fetch: "prices (fst (fetchGoldData d now c)) = slice_last d 100"
  by (simp add: fetchGoldData_def Let_def split: sum.splits)

lemma rsi_fetch:
  "20 \<le> length (slice_last d 100) \<Longrightarrow> calculateRSI (slice_last d 100) 14 = Inr r \<Longrightarrow>
   rsi (indicators (fst (fetchGoldData d now c))) = r"
  by (simp add: fetchGoldData_def Let_def)

lemma generateSignal_label:
  "rsi (indicators c) = Some r \<Longrightarrow> truthy r \<Longrightarrow> prices c \<noteq> [] \<Longrightarrow>
   a_signal (generateSignal c)
     = signal (rsi_step r \<lparr>signal = ''HOLD'', confidence = 0, reasons = []\<rparr>)"
  by (simp add: generateSignal_def Let_def ma_step_signal bollinger_step_signal)

text \<open>
  C8: on at least 50 candles with equal closes the loop of the oscillator ends with
  gains 0 and losses 0, so \<^verbatim>\<open>avgLoss === 0\<close> holds and the oscillator is 100; after
  \<^verbatim>\<open>fetchGoldData\<close> has stored the indicators of these candles (whatever the cache held
  before), \<^verbatim>\<open>generateSignal\<close> returns the label \<^verbatim>\<open>STRONG_SELL\<close>.
\<close>

theorem flat_closes_strong_sell:
  assumes "\<forall>c\<in>set data. close c = k" "50 \<le> length data"
  shows "rsi_loop data 14 1 (Fin 0, Fin 0) = Inr (Fin 0, Fin 0)
       \<and> calculateRSI data 14 = Inr (Some (Fin 100))
       \<and> rsi (indicators (fst (fetchGoldData data now c0))) = Some (Fin 100)
       \<and> a_signal (generateSignal (fst (fetchGoldData data now c0))) = ''STRONG_SELL''"
proof -
  let ?w = "slice_last data 100"
  let ?c = "fst (fetchGoldData data now c0)"
  have len: "14 < length data" using assms(2) by simp
  have loop: "rsi_loop data 14 1 (Fin 0, Fin 0) = Inr (Fin 0, Fin 0)"
    using rsi_loop_sums [of 1 14 data 0 0] flat_sums [OF assms(1) _ len, of 1] len
    by (simp add: overflow_small del: rsi_loop.simps)
  have v: "calculateRSI data 14 = Inr (Some (Fin 100))"
    using calculateRSI_value [of 14 data] flat_sums(2) [OF assms(1) _ len, of 1] len by simp
  have wflat: "\<forall>c\<in>set ?w. close c = k" using assms(1) set_slice_last [of data 100] by blast
  have wlen: "50 \<le> length ?w" using assms(2) by (simp add: length_slice_last)
  then have wlen': "14 < length ?w" "20 \<le> length ?w" "?w \<noteq> []" by auto
  have "calculateRSI ?w 14 = Inr (Some (Fin 100))"
    using calculateRSI_value [of 14 ?w] flat_sums(2) [OF wflat _ wlen'(1), of 1] wlen'(1) by simp
  then have r: "rsi (indicators ?c) = Some (Fin 100)"
    by (rule rsi_fetch [OF wlen'(2)])
  have "a_signal (generateSignal ?c)
          = signal (rsi_step (Fin 100) \<lparr>signal = ''HOLD'', confidence = 0, reasons = []\<rparr>)"
    using r wlen'(3) by (intro generateSignal_label) (simp_all add: prices_fetch)
  also have "\<dots> = ''STRONG_SELL''" by (simp add: rsi_step_def js_gt_def)
  finally show ?thesis using loop v r by simp
qed

theorem flat_closes_strong_sell_witness:
  "set (replicate 50 (flat_candle 5)) = {flat_candle 5} \<and> close (flat_candle 5) = 5
   \<and> 50 \<le> length (replicate 50 (flat_candle 5))
   \<and> calculateRSI (replicate 50 (flat_candle 5)) 14 = Inr (Some (Fin 100))
   \<and> a_signal (generateSignal (fst (fetchGoldData (replicate 50 (flat_candle 5)) 0 initial_cache)))
       = ''STRONG_SELL''"
proof -
  have s: "set (replicate 50 (flat_candle 5)) = {flat_candle 5}" by simp
  have k: "close (flat_candle 5) = 5" by (simp add: flat_candle_def)
  have h1: "\<forall>c\<in>set (replicate 50 (flat_candle 5)). close c = 5" using k by simp
  have h2: "50 \<le> length (replicate 50 (flat_candle 5))" by simp
  from flat_closes_strong_sell [OF h1 h2, of 0 initial_cache] s k h2 show ?thesis by simp
qed

text \<open>The last transitions of the cached window are those of the fetched sequence.\<close>

lemma change_at_slice_last:
  assumes "i + 1 \<le> length (slice_last d n)"
  shows "change_at (slice_last d n) i = change_at d i"
proof (cases "n = 0")
  case True
  then show ?thesis by (simp add: slice_last_def)
next
  case False
  let ?k = "length d - n"
  have s: "slice_last d n = drop ?k d" using False by (simp add: slice_last_def)
  have l: "i + 1 \<le> length d - ?k" using assms unfolding s by simp
  then have a: "?k + (length d - ?k - i) = length d - i"
    and b: "?k + (length d - ?k - i - 1) = length d - i - 1" by linarith+
  show ?thesis unfolding s change_at_def using l by (simp add: a b)
qed

lemma sums_slice_last:
  assumes "period + 1 \<le> length (slice_last d n)"
  shows "upward_sum (slice_last d n) i period = upward_sum d i period"
    and "downward_sum (slice_last d n) i period = downward_sum d i period"
proof -
  have c: "change_at (slice_last d n) j = change_at d j" if "j \<in> set [i..<Suc period]" for j
    using that assms by (intro change_at_slice_last) auto
  show "upward_sum (slice_last d n) i period = upward_sum d i period"
    unfolding upward_sum_def by (intro arg_cong [where f = sum_list] map_cong refl) (simp only: c)
  show "downward_sum (slice_last d n) i period = downward_sum d i period"
    unfolding downward_sum_def by (intro arg_cong [where f = sum_list] map_cong refl) (simp only: c)
qed

lemma generateSignal_zero_rsi: "rsi (indicators c) = Some (Fin 0) \<Longrightarrow> generateSignal c = no_data"
  by (simp add: generateSignal_def)

text \<open>
  C1: the scenario of the claim, on at least 20 candles: no upward change and a positive
  sum of downward changes over the last 14 transitions. The oscillator is exactly 0.
  The claim expects the label \<^verbatim>\<open>STRONG_BUY\<close> with confidence at least 40; the code
  returns \<^verbatim>\<open>NO_DATA\<close> with confidence 0, because the guard \<^verbatim>\<open>!rsi\<close> at the head of
  \<^verbatim>\<open>generateSignal\<close> takes the number 0 for a missing value.
\<close>

theorem zero_oscillator_is_no_data:
  assumes "upward_sum data 1 14 = 0" "0 < downward_sum data 1 14" "20 \<le> length data"
  shows "calculateRSI data 14 = Inr (Some (Fin 0))
       \<and> rsi (indicators (fst (fetchGoldData data now c0))) = Some (Fin 0)
       \<and> a_signal (generateSignal (fst (fetchGoldData data now c0))) = ''NO_DATA''
       \<and> a_confidence (generateSignal (fst (fetchGoldData data now c0))) = 0"
proof -
  let ?w = "slice_last data 100"
  have v: "calculateRSI data 14 = Inr (Some (Fin 0))"
    using calculateRSI_value [of 14 data] assms threshold_above_1000
    by (simp add: relative_strength_def)
  have wlen: "20 \<le> length ?w" using assms(3) by (simp add: length_slice_last)
  then have w15: "14 + 1 \<le> length ?w" by simp
  have "calculateRSI ?w 14 = Inr (Some (Fin 0))"
    using calculateRSI_value [of 14 ?w] assms(1,2) w15 threshold_above_1000
    by (simp add: sums_slice_last [OF w15] relative_strength_def)
  then have r: "rsi (indicators (fst (fetchGoldData data now c0))) = Some (Fin 0)"
    by (rule rsi_fetch [OF wlen])
  from generateSignal_zero_rsi [OF r] v r show ?thesis by (simp add: no_data_def)
qed

theorem zero_oscillator_is_no_data_witness:
  "upward_sum falling_data 1 14 = 0 \<and> downward_sum falling_data 1 14 = 13
   \<and> length falling_data = 20
   \<and> calculateRSI falling_data 14 = Inr (Some (Fin 0))
   \<and> a_signal (generateSignal (fst (fetchGoldData falling_data 0 initial_cache))) = ''NO_DATA''
   \<and> a_confidence (generateSignal (fst (fetchGoldData falling_data 0 initial_cache))) = 0"
proof -
  have u: "upward_sum falling_data 1 14 = 0" by code_simp
  have d: "downward_sum falling_data 1 14 = 13" by code_simp
  have l: "length falling_data = 20" by code_simp
  from zero_oscillator_is_no_data [of falling_data 0 initial_cache] u d l
  show ?thesis by simp
qed

section \<open>The volatility bands\<close>

text \<open>The two \<^verbatim>\<open>reduce\<close> calls stay finite and compute the sums.\<close>

lemma foldl_close:
  "foldl (\<lambda>sum item. js_add sum (Fin (close item))) (Fin a) xs = Fin (a + sum_list (map close xs))"
  by (induction xs arbitrary: a) (simp_all add: add.assoc)

lemma sum_close_finite: "sum_close xs = Fin (sum_list (map close xs))"
  by (simp add: sum_close_def foldl_close)

lemma js_sub_finite: "js_sub (Fin a) (Fin b) = Fin (a - b)"
  by (simp add: js_sub_def)

lemma foldl_squares:
  "foldl (\<lambda>sum item. js_add sum (js_pow2 (Fin (close item - m)))) (Fin a) xs
     = Fin (a + (\<Sum>c\<leftarrow>xs. (close c - m)\<^sup>2))"
  by (induction xs arbitrary: a) (simp_all add: js_pow2_def power2_eq_square add.assoc)

lemma calculateSMA_value:
  "1 \<le> period \<Longrightarrow> period \<le> length data \<Longrightarrow>
   calculateSMA data period = Some (Fin (window_mean data period))"
  by (simp add: calculateSMA_def sum_close_finite window_mean_def)

lemma window_variance_nonneg: "0 \<le> window_variance data period"
  unfolding window_variance_def by (intro divide_nonneg_nonneg sum_list_nonneg) auto

lemma calculateBollingerBands_value:
  assumes "1 \<le> period" "period \<le> length data"
  shows "calculateBollingerBands data period (Fin mu) =
     (if window_mean data period = 0 then None
      else Some \<lparr>upper = Fin (window_mean data period + sqrt (window_variance data period) * mu),
                 middle = Fin (window_mean data period),
                 lower = Fin (window_mean data period - sqrt (window_variance data period) * mu),
                 width = Fin (sqrt (window_variance data period) * mu * 2
                              / window_mean data period * 100)\<rparr>)"
proof -
  have p: "real period \<noteq> 0" using assms(1) by simp
  have nn: "\<not> window_variance data period < 0" using window_variance_nonneg [of data period] by simp
  have var: "js_div (foldl (\<lambda>sum item. js_add sum (js_pow2
                  (Fin (close item - window_mean data period)))) (Fin 0) (slice_last data period))
                (Fin (real period)) = Fin (window_variance data period)"
    using p by (simp add: foldl_squares window_variance_def)
  show ?thesis
    using assms nn
    by (simp add: calculateBollingerBands_def calculateSMA_value js_sub_finite var Let_def)
qed







section \<open>Double tops and bottoms\<close>







text \<open>\<^verbatim>\<open>detectPatterns\<close> applies the detector to the last 20 candles.\<close>

lemma detectPatterns_window:
  "20 \<le> length data \<Longrightarrow> detectPatterns data = detectDoubleTopBottom (slice_last data 20)"
  by (simp add: detectPatterns_def)

section \<open>A moving average of zero\<close>

lemma zero_average_indicators:
  "length zero_average_data = 50"
  "slice_last zero_average_data 100 = zero_average_data"
  "calculateSMA zero_average_data 20 = Some (Fin (423 / 20))"
  "calculateSMA zero_average_data 50 = Some (Fin 0)"
  "close (zero_average_data ! 49) = 88"
  "upward_sum zero_average_data 1 14 = 1"
  "downward_sum zero_average_data 1 14 = 13"
  "relative_strength zero_average_data 14 = 1 / 13"
  "window_mean zero_average_data 20 = 423 / 20"
  by code_simp+

lemma zero_average_rsi: "calculateRSI zero_average_data 14 = Inr (Some (Fin (50 / 7)))"
  using calculateRSI_small [of 14 zero_average_data, unfolded zero_average_indicators]
  by simp

lemma zero_average_cache_fields:
  "prices zero_average_cache = zero_average_data"
  "rsi (indicators zero_average_cache) = Some (Fin (50 / 7))"
  "sma20 (indicators zero_average_cache) = Some (Fin (423 / 20))"
  "sma50 (indicators zero_average_cache) = Some (Fin 0)"
  "bollinger (indicators zero_average_cache) = calculateBollingerBands zero_average_data 20 (Fin 2)"
  by (simp_all add: zero_average_cache_def fetchGoldData_def Let_def zero_average_indicators
      zero_average_rsi)

lemma zero_average_bands:
  "\<exists>up w. calculateBollingerBands zero_average_data 20 (Fin 2)
     = Some \<lparr>upper = up, middle = Fin (423 / 20),
             lower = Fin (423 / 20 - sqrt (window_variance zero_average_data 20) * 2), width = w\<rparr>"
  using calculateBollingerBands_value [of 20 zero_average_data 2]
  by (simp add: zero_average_indicators)

lemma zero_average_steps:
  "rsi_step (Fin (50 / 7)) \<lparr>signal = ''HOLD'', confidence = 0, reasons = []\<rparr>
     = \<lparr>signal = ''STRONG_BUY'', confidence = 40,
        reasons = [[Lit ''RSI oversold ('', ToFixed (Fin (50 / 7)) 1, Lit '')'']]\<rparr>"
  "ma_step (Fin 88) (Some (Fin (423 / 20))) (Some (Fin 0)) v = v"
  "js_includes ''STRONG_BUY'' ''SELL'' = False"
  "js_includes ''STRONG_BUY'' ''BUY'' = True"
    apply code_simp
   apply (simp add: ma_step_def)
   apply code_simp
  apply code_simp
  done

lemma zero_average_band_step:
  "bollinger_step (Fin 88) (calculateBollingerBands zero_average_data 20 (Fin 2))
     \<lparr>signal = ''STRONG_BUY'', confidence = c, reasons = rs\<rparr>
   = \<lparr>signal = ''STRONG_BUY'', confidence = c, reasons = rs\<rparr>"
proof -
  obtain up w where b: "calculateBollingerBands zero_average_data 20 (Fin 2)
     = Some \<lparr>upper = up, middle = Fin (423 / 20),
             lower = Fin (423 / 20 - sqrt (window_variance zero_average_data 20) * 2), width = w\<rparr>"
    using zero_average_bands by blast
  have "0 \<le> sqrt (window_variance zero_average_data 20)"
    using window_variance_nonneg [of zero_average_data 20] by simp
  then have "\<not> 88 < 423 / 20 - sqrt (window_variance zero_average_data 20) * 2" by linarith
  then show ?thesis
    unfolding b by (simp add: bollinger_step_def zero_average_steps(3))
qed

text \<open>
  C7: both moving averages are available (21.15 and 0), price 88 > MA20 21.15 > MA50 0
  and the label \<^verbatim>\<open>STRONG_BUY\<close> contains \<^verbatim>\<open>BUY\<close>, so the claim expects the
  moving-average step to add 15 and a rationale entry. The code adds nothing: the
  confidence stays 40 and the only rationale is the oscillator's, because the test
  \<^verbatim>\<open>sma20 && sma50\<close> takes the average 0 for a missing one.
\<close>

theorem zero_average_skips_confirmation:
  "sma20 (indicators zero_average_cache) = Some (Fin (423 / 20))
   \<and> sma50 (indicators zero_average_cache) = Some (Fin 0)
   \<and> a_price (generateSignal zero_average_cache) = Some (Fin 88)
   \<and> js_gt (Fin 88) (Fin (423 / 20)) \<and> js_gt (Fin (423 / 20)) (Fin 0)
   \<and> a_signal (generateSignal zero_average_cache) = ''STRONG_BUY''
   \<and> js_includes ''STRONG_BUY'' ''BUY''
   \<and> a_confidence (generateSignal zero_average_cache) = 40
   \<and> a_reasons (generateSignal zero_average_cache)
       = Some [[Lit ''RSI oversold ('', ToFixed (Fin (50 / 7)) 1, Lit '')'']]"
proof -
  have g: "generateSignal zero_average_cache =
     \<lparr>a_signal = ''STRONG_BUY'', a_confidence = 40,
      a_reasons = Some [[Lit ''RSI oversold ('', ToFixed (Fin (50 / 7)) 1, Lit '')'']],
      a_price = Some (Fin 88), a_indicators = Some (indicators zero_average_cache),
      a_patterns = Some (take 3 (patterns zero_average_cache))\<rparr>"
    unfolding generateSignal_def Let_def zero_average_cache_fields
    by (simp add: zero_average_indicators zero_average_steps zero_average_band_step)
  show ?thesis
    unfolding g by (simp add: zero_average_cache_fields zero_average_steps(4) js_gt_def)
qed

theorem zero_average_skips_confirmation_witness:
  "a_confidence (generateSignal zero_average_cache) = 40
   \<and> a_confidence (generateSignal zero_average_cache) \<noteq> 40 + 15"
  using zero_average_skips_confirmation by simp

end
